theory Spec2Isabelle
  imports Main "HOL-Library.Sublist" "HOL-Library.Word"
begin

section \<open>Image Bard: image acquisition and poem generation\<close>

text \<open>
  A shallow embedding of \<^verbatim>\<open>src/app/actions.ts\<close> (the server action that turns an image
  URL into a data URL), of the file-input schema and change handler of the client
  component \<^verbatim>\<open>ImageBardClient\<close>, and of the flow in
  \<^verbatim>\<open>src/ai/flows/generate-poem-from-image.ts\<close>.

  The collaborators outside the repository are parameters of the model: the URL check of
  the validation library, the HTTP client \<^verbatim>\<open>fetch\<close>, the rendering of the prompt template,
  and the text-generation model.
  Every call of a collaborator is recorded in a list of effects, in the order of the calls.
\<close>

subsection \<open>JavaScript values\<close>

text \<open>
  What \<^verbatim>\<open>response.json()\<close> and the model can hand back. Numbers are kept to the integers:
  only the truthiness of a number is ever inspected.
\<close>

datatype json =
    JNull
  | JBool bool
  | JNum int
  | JStr string
  | JArr "json list"
  | JObj "(string \<times> json) list"

text \<open>What a \<^verbatim>\<open>catch (e: any)\<close> can receive: an \<^verbatim>\<open>Error\<close> with its message, a string, or
  anything else.\<close>

datatype thrown = JsError string | JsString string | JsOther

text \<open>Truthiness, as \<^verbatim>\<open>if (v)\<close> and \<^verbatim>\<open>&&\<close> test it.\<close>

fun truthy :: "json \<Rightarrow> bool" where
  "truthy JNull = False"
| "truthy (JBool b) = b"
| "truthy (JNum n) = (n \<noteq> 0)"
| "truthy (JStr s) = (s \<noteq> [])"
| "truthy (JArr _) = True"
| "truthy (JObj _) = True"

text \<open>Property read \<^verbatim>\<open>v.key\<close> on a parsed JSON value; \<open>None\<close> is \<^verbatim>\<open>undefined\<close>. Of a
  repeated key the parser keeps the last entry. (The keys read here, \<^verbatim>\<open>message\<close>,
  \<^verbatim>\<open>poem\<close> and \<^verbatim>\<open>photoDataUri\<close>, are no built-in property of a string, an array, a
  number or a boolean.)\<close>

fun get_prop :: "json \<Rightarrow> string \<Rightarrow> json option" where
  "get_prop (JObj kvs) k = map_of (rev kvs) k"
| "get_prop _ k = None"

definition truthy_opt :: "json option \<Rightarrow> bool" where
  "truthy_opt v = (case v of None \<Rightarrow> False | Some j \<Rightarrow> truthy j)"

text \<open>A number in a template literal: its decimal digits.\<close>

definition digit_char :: "nat \<Rightarrow> char" where
  "digit_char d = ''0123456789'' ! (d mod 10)"

fun show_nat :: "nat \<Rightarrow> string" where
  "show_nat n = (if n < 10 then [digit_char n] else show_nat (n div 10) @ [digit_char (n mod 10)])"

declare show_nat.simps [simp del]

subsection \<open>Base64, the encoding of \<^verbatim>\<open>Buffer.toString("base64")\<close>\<close>

type_synonym byte = "8 word"

definition b64chars :: string where
  "b64chars = ''ABCDEFGHIJKLMNOPQRSTUVWXYZabcdefghijklmnopqrstuvwxyz0123456789+/''"

definition b64char :: "nat \<Rightarrow> char" where
  "b64char i = b64chars ! (i mod 64)"

fun index_of :: "'a \<Rightarrow> 'a list \<Rightarrow> nat option" where
  "index_of c [] = None"
| "index_of c (x # xs) = (if c = x then Some 0 else map_option Suc (index_of c xs))"

definition b64index :: "char \<Rightarrow> nat option" where
  "b64index c = index_of c b64chars"

text \<open>Three bytes are one 24-bit number, written as four 6-bit digits; a last group of one
  or two bytes is filled with zero bits and padded with \<open>=\<close>.\<close>

definition group_of_bytes :: "byte \<Rightarrow> byte \<Rightarrow> byte \<Rightarrow> nat" where
  "group_of_bytes a b c = unat a * 65536 + unat b * 256 + unat c"

definition sextet_chars :: "nat \<Rightarrow> string" where
  "sextet_chars n = [b64char (n div 262144), b64char (n div 4096), b64char (n div 64), b64char n]"

fun base64_encode :: "byte list \<Rightarrow> string" where
  "base64_encode [] = []"
| "base64_encode [a] = take 2 (sextet_chars (group_of_bytes a 0 0)) @ ''==''"
| "base64_encode [a, b] = take 3 (sextet_chars (group_of_bytes a b 0)) @ ''=''"
| "base64_encode (a # b # c # rest) = sextet_chars (group_of_bytes a b c) @ base64_encode rest"

text \<open>The decoder of RFC 4648, strict: groups of four characters of the alphabet, padding
  only in the last group.\<close>

definition group_of_sextets :: "nat \<Rightarrow> nat \<Rightarrow> nat \<Rightarrow> nat \<Rightarrow> nat" where
  "group_of_sextets i j k l = i * 262144 + j * 4096 + k * 64 + l"

definition bytes_of_group :: "nat \<Rightarrow> byte list" where
  "bytes_of_group n = [word_of_nat (n div 65536), word_of_nat (n div 256), word_of_nat n]"

fun base64_decode :: "string \<Rightarrow> byte list option" where
  "base64_decode [] = Some []"
| "base64_decode [p, q, r, s] =
     (if r = CHR ''='' \<and> s = CHR ''='' then
        (case (b64index p, b64index q) of
           (Some i, Some j) \<Rightarrow> Some (take 1 (bytes_of_group (group_of_sextets i j 0 0)))
         | _ \<Rightarrow> None)
      else if s = CHR ''='' then
        (case (b64index p, b64index q, b64index r) of
           (Some i, Some j, Some k) \<Rightarrow> Some (take 2 (bytes_of_group (group_of_sextets i j k 0)))
         | _ \<Rightarrow> None)
      else
        (case (b64index p, b64index q, b64index r, b64index s) of
           (Some i, Some j, Some k, Some l) \<Rightarrow> Some (bytes_of_group (group_of_sextets i j k l))
         | _ \<Rightarrow> None))"
| "base64_decode (p # q # r # s # rest) =
     (case (b64index p, b64index q, b64index r, b64index s) of
        (Some i, Some j, Some k, Some l) \<Rightarrow>
          map_option (\<lambda>bs. bytes_of_group (group_of_sextets i j k l) @ bs) (base64_decode rest)
      | _ \<Rightarrow> None)"
| "base64_decode _ = None"

subsection \<open>The server action \<^verbatim>\<open>convertImageUrlToDataUrlAction\<close>\<close>

text \<open>\<^verbatim>\<open>interface ConversionResult\<close>. The field \<open>error\<close> is a JavaScript value: the
  action stores \<^verbatim>\<open>errorData.message\<close> there as it comes out of the JSON body.\<close>

record ConversionResult =
  success :: bool
  dataUrl :: "string option"
  error :: "json option"

text \<open>What the action reads of a \<^verbatim>\<open>Response\<close>: the status and its text, the outcome of
  \<^verbatim>\<open>response.json()\<close> (which throws on a body that is not JSON), the
  \<^verbatim>\<open>content-type\<close> header (\<open>None\<close> is \<^verbatim>\<open>null\<close>) and the outcome of
  \<^verbatim>\<open>response.arrayBuffer()\<close>.\<close>

record response =
  status :: nat
  statusText :: string
  json_body :: "thrown + json"
  content_type :: "string option"
  array_buffer :: "thrown + byte list"

text \<open>\<^verbatim>\<open>response.ok\<close>: the status is in the range 200 to 299.\<close>

definition ok :: "response \<Rightarrow> bool" where
  "ok r = (200 \<le> status r \<and> status r \<le> 299)"

datatype effect =
    HttpGet string "(string \<times> string) list"
  | ReadJson
  | ReadBody

type_synonym http_client = "string \<Rightarrow> (string \<times> string) list \<Rightarrow> thrown + response"

definition user_agent :: string where
  "user_agent = ''Mozilla/5.0 (Windows NT 10.0; Win64; x64) AppleWebKit/537.36 (KHTML, like Gecko) Chrome/91.0.4472.124 Safari/537.36''"

definition request_headers :: "(string \<times> string) list" where
  "request_headers = [(''User-Agent'', user_agent)]"

definition failure :: "json \<Rightarrow> ConversionResult" where
  "failure msg = \<lparr>success = False, dataUrl = None, error = Some msg\<rparr>"

text \<open>Lines 27 to 44: the message for a response that is not ok.\<close>

definition status_text_or :: "response \<Rightarrow> json \<Rightarrow> json" where
  "status_text_or r errorText =
     (if statusText r \<noteq> [] then JStr (''Failed to fetch image: '' @ statusText r)
      else errorText)"

text \<open>\<^verbatim>\<open>errorData && errorData.message\<close>, when it is truthy.\<close>

definition truthy_message :: "json \<Rightarrow> json option" where
  "truthy_message errorData =
     (if truthy errorData then
        (case get_prop errorData ''message'' of
           Some m \<Rightarrow> (if truthy m then Some m else None)
         | None \<Rightarrow> None)
      else None)"

definition not_ok_errorText :: "response \<Rightarrow> json" where
  "not_ok_errorText r =
     (let errorText = JStr (''Failed to fetch image. Status: '' @ show_nat (status r))
      in case json_body r of
           Inr errorData \<Rightarrow>
             (case truthy_message errorData of
                Some m \<Rightarrow> m
              | None \<Rightarrow> status_text_or r errorText)
         | Inl jsonError \<Rightarrow> status_text_or r errorText)"

text \<open>\<^verbatim>\<open>"..." + contentType\<close>: \<^verbatim>\<open>null\<close> is written \<open>null\<close>.\<close>

definition string_of_header :: "string option \<Rightarrow> string" where
  "string_of_header h = (case h of None \<Rightarrow> ''null'' | Some s \<Rightarrow> s)"

definition content_type_failure :: "string option \<Rightarrow> ConversionResult" where
  "content_type_failure contentType =
     failure (JStr (''Invalid content type. URL does not point to an image. Found: ''
                      @ string_of_header contentType))"

definition MAX_REMOTE_SIZE :: nat where
  "MAX_REMOTE_SIZE = 10 * 1024 * 1024"

text \<open>Lines 51 to 61: the body is read whole, then measured, then encoded.\<close>

definition read_image :: "string \<Rightarrow> string \<Rightarrow> response \<Rightarrow> (thrown + ConversionResult) \<times> effect list" where
  "read_image imageUrl contentType response =
     (case array_buffer response of
        Inl e \<Rightarrow> (Inl e, [HttpGet imageUrl request_headers, ReadBody])
      | Inr imageBuffer \<Rightarrow>
          (if length imageBuffer = 0 then
             (Inr (failure (JStr ''Fetched image is empty.'')),
              [HttpGet imageUrl request_headers, ReadBody])
           else if length imageBuffer > MAX_REMOTE_SIZE then
             (Inr (failure (JStr ''Image size exceeds 10MB limit.'')),
              [HttpGet imageUrl request_headers, ReadBody])
           else
             (Inr \<lparr>success = True,
                   dataUrl = Some (''data:'' @ contentType @ '';base64,''
                                    @ base64_encode imageBuffer),
                   error = None\<rparr>,
              [HttpGet imageUrl request_headers, ReadBody])))"

text \<open>The body of the \<^verbatim>\<open>try\<close> block: a result, or what was thrown, and the effects so far.
  \<open>valid_url\<close> is the check behind \<^verbatim>\<open>z.string().url()\<close>. A header that is \<^verbatim>\<open>null\<close> or
  the empty string is falsy.\<close>

definition try_body ::
  "(string \<Rightarrow> bool) \<Rightarrow> http_client \<Rightarrow> string \<Rightarrow> (thrown + ConversionResult) \<times> effect list" where
  "try_body valid_url fetch imageUrl =
     (if \<not> valid_url imageUrl then (Inr (failure (JStr ''Invalid URL format.'')), [])
      else
        (case fetch imageUrl request_headers of
           Inl e \<Rightarrow> (Inl e, [HttpGet imageUrl request_headers])
         | Inr response \<Rightarrow>
             (if \<not> ok response then
                (Inr (failure (not_ok_errorText response)),
                 [HttpGet imageUrl request_headers, ReadJson])
              else
                (case content_type response of
                   None \<Rightarrow> (Inr (content_type_failure None), [HttpGet imageUrl request_headers])
                 | Some contentType \<Rightarrow>
                     (if contentType = [] \<or> \<not> prefix ''image/'' contentType then
                        (Inr (content_type_failure (Some contentType)),
                         [HttpGet imageUrl request_headers])
                      else read_image imageUrl contentType response)))))"

text \<open>The \<^verbatim>\<open>catch\<close> block, lines 63 to 76 (the log line \<^verbatim>\<open>console.error\<close> is left out).\<close>

definition thrown_message :: "thrown \<Rightarrow> string" where
  "thrown_message e =
     (case e of
        JsError m \<Rightarrow> m
      | JsString s \<Rightarrow> s
      | JsOther \<Rightarrow> ''Failed to convert image URL.'')"

definition catch_block :: "thrown \<Rightarrow> ConversionResult" where
  "catch_block e =
     (let errorMessage = thrown_message e;
          errorMessage =
            (if sublist ''fetch'' errorMessage
             then ''Network error or invalid URL. Could not fetch the image.''
             else errorMessage)
      in failure (JStr errorMessage))"

definition convertImageUrlToDataUrlAction ::
  "(string \<Rightarrow> bool) \<Rightarrow> http_client \<Rightarrow> string \<Rightarrow> ConversionResult \<times> effect list" where
  "convertImageUrlToDataUrlAction valid_url fetch imageUrl =
     (case try_body valid_url fetch imageUrl of
        (Inr result, effects) \<Rightarrow> (result, effects)
      | (Inl e, effects) \<Rightarrow> (catch_block e, effects))"

subsection \<open>The file input of \<^verbatim>\<open>ImageBardClient\<close>\<close>

text \<open>What the schema reads of a \<^verbatim>\<open>File\<close>: its size, its declared type, and the bytes that
  \<^verbatim>\<open>FileReader\<close> reads. The value under validation is a \<^verbatim>\<open>FileList\<close>, or \<open>None\<close> for
  \<^verbatim>\<open>null\<close> and \<^verbatim>\<open>undefined\<close>.\<close>

record File =
  file_size :: nat
  file_type :: string
  file_bytes :: "byte list"

definition MAX_FILE_SIZE :: nat where
  "MAX_FILE_SIZE = 5 * 1024 * 1024"

definition ACCEPTED_IMAGE_TYPES :: "string list" where
  "ACCEPTED_IMAGE_TYPES = [''image/jpeg'', ''image/png'', ''image/webp'', ''image/gif'']"

definition required_message :: string where
  "required_message = ''Image is required.''"

definition size_message :: string where
  "size_message = ''Max file size is 5MB.''"

definition type_message :: string where
  "type_message = ''.jpg, .jpeg, .png, .webp and .gif files are accepted.''"

text \<open>The three refinements. A \<^verbatim>\<open>FileList\<close> is truthy also when it is empty, and then
  \<^verbatim>\<open>files[0]\<close> is \<^verbatim>\<open>undefined\<close>: reading its \<^verbatim>\<open>size\<close> or \<^verbatim>\<open>type\<close> throws a
  \<^verbatim>\<open>TypeError\<close>.\<close>

definition refine_present :: "File list option \<Rightarrow> bool" where
  "refine_present files = (case files of None \<Rightarrow> False | Some fs \<Rightarrow> length fs > 0)"

definition refine_size :: "File list option \<Rightarrow> thrown + bool" where
  "refine_size files =
     (case files of
        None \<Rightarrow> Inr False
      | Some [] \<Rightarrow> Inl (JsError ''Cannot read properties of undefined (reading size)'')
      | Some (f # _) \<Rightarrow> Inr (file_size f \<le> MAX_FILE_SIZE))"

definition refine_type :: "File list option \<Rightarrow> thrown + bool" where
  "refine_type files =
     (case files of
        None \<Rightarrow> Inr False
      | Some [] \<Rightarrow> Inl (JsError ''Cannot read properties of undefined (reading type)'')
      | Some (f # _) \<Rightarrow> Inr (file_type f \<in> set ACCEPTED_IMAGE_TYPES))"

text \<open>\<^verbatim>\<open>fileSchema.shape.imageFile.safeParse\<close>. A refinement that fails adds its message
  and the next refinement still runs; the issues are listed in the order of the chain.
  The outcome is the list of the messages, empty when the value is accepted.\<close>

definition issue :: "bool \<Rightarrow> string \<Rightarrow> string list" where
  "issue passed msg = (if passed then [] else [msg])"

definition imageFile_safeParse :: "File list option \<Rightarrow> thrown + string list" where
  "imageFile_safeParse files =
     (let present_issues = issue (refine_present files) required_message
      in case refine_size files of
           Inl e \<Rightarrow> Inl e
         | Inr size_ok \<Rightarrow>
             (case refine_type files of
                Inl e \<Rightarrow> Inl e
              | Inr type_ok \<Rightarrow>
                  Inr (present_issues @ issue size_ok size_message @ issue type_ok type_message)))"

text \<open>\<^verbatim>\<open>FileReader.readAsDataURL\<close>.\<close>

definition readAsDataURL :: "File \<Rightarrow> string" where
  "readAsDataURL f =
     ''data:'' @ (if file_type f = [] then ''application/octet-stream'' else file_type f)
       @ '';base64,'' @ base64_encode (file_bytes f)"

text \<open>The state that \<^verbatim>\<open>handleFileChange\<close> writes: the error of the form field and the image
  preview.\<close>

record form_state =
  imageFileError :: "string option"
  imagePreview :: "string option"

definition handleFileChange :: "File list option \<Rightarrow> form_state \<Rightarrow> thrown + form_state" where
  "handleFileChange files st =
     (case files of
        None \<Rightarrow> Inr st
      | Some [] \<Rightarrow> Inr st
      | Some (f # rest) \<Rightarrow>
          (case imageFile_safeParse files of
             Inl e \<Rightarrow> Inl e
           | Inr [] \<Rightarrow> Inr (st\<lparr>imageFileError := None, imagePreview := Some (readAsDataURL f)\<rparr>)
           | Inr (message # _) \<Rightarrow>
               Inr (st\<lparr>imageFileError := Some message, imagePreview := None\<rparr>)))"

subsection \<open>The flow \<^verbatim>\<open>generatePoemFromImageFlow\<close>\<close>

text \<open>The two schemas: an object whose named property is a string. \<^verbatim>\<open>describe\<close> adds a
  description and no check. Other properties of the object are not inspected.\<close>

definition GeneratePoemFromImageInputSchema :: "json \<Rightarrow> bool" where
  "GeneratePoemFromImageInputSchema v =
     (case get_prop v ''photoDataUri'' of Some (JStr _) \<Rightarrow> True | _ \<Rightarrow> False)"

definition GeneratePoemFromImageOutputSchema :: "json \<Rightarrow> bool" where
  "GeneratePoemFromImageOutputSchema v =
     (case get_prop v ''poem'' of Some (JStr _) \<Rightarrow> True | _ \<Rightarrow> False)"

text \<open>The ways the flow fails; each reaches the caller as a rejected promise.\<close>

datatype generation_error =
    InputSchemaError
  | ModelError thrown
  | OutputSchemaError

text \<open>The prompt template, lines 36 to 40: a fixed text that ends with the media reference
  \<^verbatim>\<open>{{media url=photoDataUri}}\<close>.\<close>

definition media_marker :: string where
  "media_marker = ''{{media url=photoDataUri}}''"

definition prompt_text :: string where
  "prompt_text =
     ''You are a poet, and will generate a poem based on the image provided.''
     @ [CHR 0x0A, CHR 0x0A]
     @ ''Generate a poem inspired by the image. Consider the themes, objects, and emotions present in the image.''
     @ [CHR 0x0A, CHR 0x0A]
     @ ''Image: ''"

definition prompt_template :: string where
  "prompt_template = prompt_text @ media_marker"

text \<open>What the model receives is not the input string but the prompt that the template
  engine renders from it: parts of text, and media references with a URL and, when the
  engine finds one, a content type. The engine belongs to the prompt library, so the
  rendering is a parameter, from the template and the value of \<^verbatim>\<open>photoDataUri\<close> to the
  prompt. The model throws, or hands back the structured output (\<open>JNull\<close> when there is
  none).\<close>

datatype part = TextPart string | MediaPart string "string option"

type_synonym prompt = "part list"

type_synonym renderer = "string \<Rightarrow> string \<Rightarrow> prompt"

type_synonym model = "prompt \<Rightarrow> thrown + json"

datatype model_call = InvokeModel prompt

definition generatePoemPrompt ::
  "renderer \<Rightarrow> model \<Rightarrow> json \<Rightarrow> (generation_error + json) \<times> model_call list" where
  "generatePoemPrompt render m input =
     (case get_prop input ''photoDataUri'' of
        Some (JStr photoDataUri) \<Rightarrow>
          (let rendered = render prompt_template photoDataUri
           in case m rendered of
                Inl e \<Rightarrow> (Inl (ModelError e), [InvokeModel rendered])
              | Inr output \<Rightarrow> (Inr output, [InvokeModel rendered]))
      | _ \<Rightarrow> (Inl InputSchemaError, []))"

definition generatePoemFromImageFlow ::
  "renderer \<Rightarrow> model \<Rightarrow> json \<Rightarrow> (generation_error + json) \<times> model_call list" where
  "generatePoemFromImageFlow render m input =
     (if \<not> GeneratePoemFromImageInputSchema input then (Inl InputSchemaError, [])
      else
        (case generatePoemPrompt render m input of
           (Inl e, calls) \<Rightarrow> (Inl e, calls)
         | (Inr output, calls) \<Rightarrow>
             (if GeneratePoemFromImageOutputSchema output then (Inr output, calls)
              else (Inl OutputSchemaError, calls))))"

definition generatePoemFromImage ::
  "renderer \<Rightarrow> model \<Rightarrow> json \<Rightarrow> (generation_error + json) \<times> model_call list" where
  "generatePoemFromImage render m input = generatePoemFromImageFlow render m input"

subsection \<open>The specification's notions\<close>

text \<open>The shape \<open>data:<mimetype>;base64,<data>\<close> of the specification: the scheme, a MIME
  type that is not empty, the marker.\<close>

definition spec_well_formed_data_uri :: "string \<Rightarrow> bool" where
  "spec_well_formed_data_uri s =
     (prefix ''data:'' s \<and>
      (case drop 5 s of [] \<Rightarrow> False | c # cs \<Rightarrow> sublist '';base64,'' cs))"

text \<open>The order of the specification for the message of a response that is not ok: the
  message of a JSON body, else the status text, else the generic message with the status.\<close>

definition spec_json_message :: "response \<Rightarrow> json option" where
  "spec_json_message r =
     (case json_body r of Inl _ \<Rightarrow> None | Inr errorData \<Rightarrow> truthy_message errorData)"

definition spec_not_ok_message :: "response \<Rightarrow> json" where
  "spec_not_ok_message r =
     (case spec_json_message r of
        Some m \<Rightarrow> m
      | None \<Rightarrow>
          (if statusText r \<noteq> [] then JStr (''Failed to fetch image: '' @ statusText r)
           else JStr (''Failed to fetch image. Status: '' @ show_nat (status r))))"

subsection \<open>Stand-ins for the collaborators\<close>

definition url_check_stub :: "string \<Rightarrow> bool" where
  "url_check_stub u = (prefix ''http://'' u \<or> prefix ''https://'' u)"

definition respond_with :: "response \<Rightarrow> http_client" where
  "respond_with r u headers = Inr r"

definition fail_with :: "thrown \<Rightarrow> http_client" where
  "fail_with e u headers = Inl e"

definition model_stub :: "json \<Rightarrow> model" where
  "model_stub output rendered = Inr output"

text \<open>A rendering in the manner of the prompt library: the text before the media reference,
  then the media reference, whose URL is the value up to its first space and whose content
  type is the piece after that space, when there is one.\<close>

definition first_piece :: "string \<Rightarrow> string" where
  "first_piece s = takeWhile (\<lambda>c. c \<noteq> CHR '' '') s"

definition second_piece :: "string \<Rightarrow> string option" where
  "second_piece s =
     (case dropWhile (\<lambda>c. c \<noteq> CHR '' '') s of
        [] \<Rightarrow> None
      | _ # rest \<Rightarrow> Some (first_piece rest))"

definition render_stub :: renderer where
  "render_stub template photoDataUri =
     [TextPart (take (length template - length media_marker) template),
      MediaPart (first_piece photoDataUri) (second_piece photoDataUri)]"

section \<open>Lemmas\<close>

subsection \<open>Base64 decodes what it encodes\<close>

lemma length_b64chars: "length b64chars = 64"
  by (simp add: b64chars_def)

lemma distinct_b64chars: "distinct b64chars"
  by (simp add: b64chars_def)

lemma pad_notin_b64chars: "CHR ''='' \<notin> set b64chars"
  by (simp add: b64chars_def)

lemma index_of_nth: "distinct xs \<Longrightarrow> i < length xs \<Longrightarrow> index_of (xs ! i) xs = Some i"
proof (induction xs arbitrary: i)
  case Nil
  then show ?case by simp
next
  case (Cons x xs)
  show ?case
  proof (cases i)
    case 0
    then show ?thesis by simp
  next
    case (Suc j)
    with Cons.prems have "xs ! j \<in> set xs" "x \<notin> set xs" by auto
    then have "xs ! j \<noteq> x" by auto
    with Cons Suc show ?thesis by simp
  qed
qed

lemma b64index_b64char: "b64index (b64char i) = Some (i mod 64)"
  unfolding b64index_def b64char_def
  by (rule index_of_nth) (simp_all add: distinct_b64chars length_b64chars)

lemma b64char_not_pad: "b64char i \<noteq> CHR ''=''"
proof -
  have "b64char i \<in> set b64chars"
    unfolding b64char_def by (rule nth_mem) (simp add: length_b64chars)
  with pad_notin_b64chars show ?thesis by auto
qed

lemma byte_of_nat_add: "(word_of_nat (k * 256 + unat (b::byte)) :: byte) = b"
proof -
  have "(word_of_nat (k * 256 + unat b) :: byte) = word_of_nat (unat b)"
    unfolding word_of_nat_eq_iff take_bit_eq_mod by simp
  then show ?thesis by simp
qed

lemma unat_byte_less: "unat (b::byte) < 256"
  using unsigned_less[of b] by simp

lemma bytes_of_group_of_bytes: "bytes_of_group (group_of_bytes a b c) = [a, b, c]"
proof -
  have hi: "(unat a * 65536 + unat b * 256 + unat c) div 65536 = unat a"
    using unat_byte_less[of b] unat_byte_less[of c] by linarith
  have mid: "(unat a * 65536 + unat b * 256 + unat c) div 256 = unat a * 256 + unat b"
    using unat_byte_less[of c] by linarith
  have lo: "unat a * 65536 + unat b * 256 + unat c = (unat a * 256 + unat b) * 256 + unat c"
    by simp
  have "(word_of_nat (unat a * 65536 + unat b * 256 + unat c) :: byte) = c"
    by (simp only: lo byte_of_nat_add)
  moreover have "(word_of_nat ((unat a * 65536 + unat b * 256 + unat c) div 256) :: byte) = b"
    by (simp only: mid byte_of_nat_add)
  moreover have "(word_of_nat ((unat a * 65536 + unat b * 256 + unat c) div 65536) :: byte) = a"
    using hi by simp
  ultimately show ?thesis
    unfolding bytes_of_group_def group_of_bytes_def by (simp only:)
qed

lemma sextets_of_group:
  "group_of_sextets ((n div 262144) mod 64) ((n div 4096) mod 64) ((n div 64) mod 64) (n mod 64)
   = n mod 16777216"
proof -
  have a: "n mod 16777216 = (n div 262144) mod 64 * 262144 + n mod 262144"
    using mod_mult2_eq[of n 262144 64] by simp
  have b: "n mod 262144 = (n div 4096) mod 64 * 4096 + n mod 4096"
    using mod_mult2_eq[of n 4096 64] by simp
  have c: "n mod 4096 = (n div 64) mod 64 * 64 + n mod 64"
    using mod_mult2_eq[of n 64 64] by simp
  show ?thesis unfolding group_of_sextets_def using a b c by simp
qed

lemma group_of_bytes_mod: "group_of_bytes a b c mod 16777216 = group_of_bytes a b c"
proof -
  have "group_of_bytes a b c < 16777216"
    unfolding group_of_bytes_def
    using unat_byte_less[of a] unat_byte_less[of b] unat_byte_less[of c] by linarith
  then show ?thesis by simp
qed

lemma group_low_zero2: "group_of_bytes a b 0 mod 64 = 0"
proof -
  have "group_of_bytes a b 0 = (unat a * 1024 + unat b * 4) * 64"
    by (simp add: group_of_bytes_def)
  then show ?thesis by simp
qed

lemma group_low_zero1: "group_of_bytes a 0 0 div 64 mod 64 = 0"
proof -
  have "group_of_bytes a 0 0 = (unat a * 16 * 64) * 64"
    by (simp add: group_of_bytes_def)
  then show ?thesis by simp
qed

lemma decode_quad:
  assumes "r \<noteq> CHR ''=''" "s \<noteq> CHR ''=''"
    and "b64index p = Some i" "b64index q = Some j" "b64index r = Some k" "b64index s = Some l"
  shows "base64_decode (p # q # r # s # rest) =
         map_option (\<lambda>bs. bytes_of_group (group_of_sextets i j k l) @ bs) (base64_decode rest)"
  using assms by (cases rest) simp_all

lemma decode_sextet_chars:
  "base64_decode (sextet_chars n @ rest) =
   map_option (\<lambda>bs. bytes_of_group (n mod 16777216) @ bs) (base64_decode rest)"
proof -
  have "base64_decode (sextet_chars n @ rest) =
        map_option (\<lambda>bs. bytes_of_group
            (group_of_sextets ((n div 262144) mod 64) ((n div 4096) mod 64) ((n div 64) mod 64) (n mod 64)) @ bs)
          (base64_decode rest)"
    unfolding sextet_chars_def append_Cons append_Nil
    by (rule decode_quad) (rule b64char_not_pad b64index_b64char)+
  then show ?thesis by (simp only: sextets_of_group)
qed

lemma decode_encode_3:
  "base64_decode (base64_encode (a # b # c # rest)) =
   map_option (\<lambda>bs. [a, b, c] @ bs) (base64_decode (base64_encode rest))"
  by (simp only: base64_encode.simps decode_sextet_chars group_of_bytes_mod bytes_of_group_of_bytes)

lemma decode_encode_2: "base64_decode (base64_encode [a, b]) = Some [a, b]"
proof -
  define n where "n = group_of_bytes a b 0"
  have "group_of_sextets ((n div 262144) mod 64) ((n div 4096) mod 64) ((n div 64) mod 64) 0 = n"
    using sextets_of_group[of n] by (simp add: n_def group_of_bytes_mod group_low_zero2)
  moreover have "take 2 (bytes_of_group n) = [a, b]"
    by (simp add: n_def bytes_of_group_of_bytes)
  moreover have "base64_encode [a, b]
      = [b64char (n div 262144), b64char (n div 4096), b64char (n div 64), CHR ''='']"
    by (simp add: n_def sextet_chars_def)
  ultimately show ?thesis
    by (simp add: b64index_b64char b64char_not_pad)
qed

lemma decode_encode_1: "base64_decode (base64_encode [a]) = Some [a]"
proof -
  define n where "n = group_of_bytes a 0 0"
  have "group_of_sextets ((n div 262144) mod 64) ((n div 4096) mod 64) 0 0 = n"
    using sextets_of_group[of n]
    by (simp add: n_def group_of_bytes_mod group_low_zero2 group_low_zero1)
  moreover have "take 1 (bytes_of_group n) = [a]"
    by (simp add: n_def bytes_of_group_of_bytes)
  moreover have "base64_encode [a]
      = [b64char (n div 262144), b64char (n div 4096), CHR ''='', CHR ''='']"
    by (simp add: n_def sextet_chars_def)
  ultimately show ?thesis
    by (simp add: b64index_b64char)
qed

lemma base64_decode_encode: "base64_decode (base64_encode bs) = Some bs"
proof (induction bs rule: base64_encode.induct)
  case 1
  show ?case by simp
next
  case (2 a)
  show ?case by (rule decode_encode_1)
next
  case (3 a b)
  show ?case by (rule decode_encode_2)
next
  case (4 a b c rest)
  show ?case by (simp only: decode_encode_3 "4.IH") simp
qed

subsection \<open>The branches of the server action\<close>

lemma convert_invalid:
  "\<not> valid_url u \<Longrightarrow> try_body valid_url fetch u = (Inr (failure (JStr ''Invalid URL format.'')), [])"
  by (simp add: try_body_def)

lemma try_body_fetch_throws:
  "valid_url u \<Longrightarrow> fetch u request_headers = Inl e \<Longrightarrow>
   try_body valid_url fetch u = (Inl e, [HttpGet u request_headers])"
  by (simp add: try_body_def)

lemma try_body_not_ok:
  "valid_url u \<Longrightarrow> fetch u request_headers = Inr r \<Longrightarrow> \<not> ok r \<Longrightarrow>
   try_body valid_url fetch u =
     (Inr (failure (not_ok_errorText r)), [HttpGet u request_headers, ReadJson])"
  by (simp add: try_body_def)

lemma try_body_no_header:
  "valid_url u \<Longrightarrow> fetch u request_headers = Inr r \<Longrightarrow> ok r \<Longrightarrow> content_type r = None \<Longrightarrow>
   try_body valid_url fetch u = (Inr (content_type_failure None), [HttpGet u request_headers])"
  by (simp add: try_body_def)

lemma try_body_not_image:
  "valid_url u \<Longrightarrow> fetch u request_headers = Inr r \<Longrightarrow> ok r \<Longrightarrow> content_type r = Some ct \<Longrightarrow>
   \<not> prefix ''image/'' ct \<Longrightarrow>
   try_body valid_url fetch u = (Inr (content_type_failure (Some ct)), [HttpGet u request_headers])"
  by (simp add: try_body_def)

lemma image_prefix_nonempty: "prefix ''image/'' ct \<Longrightarrow> ct \<noteq> []"
  by auto

lemma try_body_image:
  "valid_url u \<Longrightarrow> fetch u request_headers = Inr r \<Longrightarrow> ok r \<Longrightarrow> content_type r = Some ct \<Longrightarrow>
   prefix ''image/'' ct \<Longrightarrow>
   try_body valid_url fetch u = read_image u ct r"
  using image_prefix_nonempty[of ct] by (simp add: try_body_def)

lemma action_of_result:
  "try_body valid_url fetch u = (Inr res, effs) \<Longrightarrow>
   convertImageUrlToDataUrlAction valid_url fetch u = (res, effs)"
  by (simp add: convertImageUrlToDataUrlAction_def)

lemma action_of_thrown:
  "try_body valid_url fetch u = (Inl e, effs) \<Longrightarrow>
   convertImageUrlToDataUrlAction valid_url fetch u = (catch_block e, effs)"
  by (simp add: convertImageUrlToDataUrlAction_def)

lemma catch_block_not_success: "\<not> success (catch_block e)"
  by (simp add: catch_block_def failure_def Let_def)

lemma failure_not_success: "\<not> success (failure m)"
  by (simp add: failure_def)

lemma content_type_failure_not_success: "\<not> success (content_type_failure h)"
  by (simp add: content_type_failure_def failure_def)

text \<open>A successful outcome comes from the last branch only.\<close>

lemma try_body_success:
  assumes "try_body valid_url fetch u = (Inr res, effs)" and "success res"
  shows "\<exists>r ct bs. fetch u request_headers = Inr r \<and> ok r \<and> content_type r = Some ct \<and>
           prefix ''image/'' ct \<and> array_buffer r = Inr bs \<and> 0 < length bs \<and>
           length bs \<le> MAX_REMOTE_SIZE \<and>
           dataUrl res = Some (''data:'' @ ct @ '';base64,'' @ base64_encode bs)"
  using assms
  by (auto simp: try_body_def read_image_def failure_not_success content_type_failure_not_success
           split: if_splits sum.splits option.splits)

lemma not_ok_refines_spec: "not_ok_errorText r = spec_not_ok_message r"
  by (simp add: not_ok_errorText_def spec_not_ok_message_def spec_json_message_def
        status_text_or_def Let_def split: sum.splits option.splits)

subsection \<open>The file schema\<close>

lemma safeParse_first_file:
  "imageFile_safeParse (Some (f # rest)) =
     Inr (issue (file_size f \<le> MAX_FILE_SIZE) size_message
          @ issue (file_type f \<in> set ACCEPTED_IMAGE_TYPES) type_message)"
  by (simp add: imageFile_safeParse_def refine_size_def refine_type_def refine_present_def issue_def
        Let_def)

lemma safeParse_absent:
  "imageFile_safeParse None = Inr [required_message, size_message, type_message]"
  by (simp add: imageFile_safeParse_def refine_size_def refine_type_def refine_present_def issue_def
        Let_def)

lemma messages_distinct: "distinct [required_message, size_message, type_message]"
  by (simp add: required_message_def size_message_def type_message_def)

subsection \<open>Messages, the catch block and the flow\<close>

lemma show_nat_404: "show_nat 404 = ''404''"
  by (simp add: show_nat.simps digit_char_def)

lemma spec_message_names_status:
  assumes "spec_json_message r = None"
  shows "\<exists>msg. spec_not_ok_message r = JStr msg \<and>
           (sublist (show_nat (status r)) msg \<or> (statusText r \<noteq> [] \<and> sublist (statusText r) msg))"
proof (cases "statusText r = []")
  case True
  have "sublist (show_nat (status r)) (''Failed to fetch image. Status: '' @ show_nat (status r))"
    by (rule sublist_append_leftI)
  with True assms show ?thesis
    by (simp add: spec_not_ok_message_def)
next
  case False
  have "sublist (statusText r) (''Failed to fetch image: '' @ statusText r)"
    by (rule sublist_append_leftI)
  with False assms show ?thesis
    by (simp add: spec_not_ok_message_def)
qed

lemma catch_block_error:
  "catch_block e = \<lparr>success = False, dataUrl = None,
      error = Some (JStr (if sublist ''fetch'' (thrown_message e)
                          then ''Network error or invalid URL. Could not fetch the image.''
                          else thrown_message e))\<rparr>"
  by (simp add: catch_block_def failure_def Let_def)

lemma try_body_read_throws:
  "valid_url u \<Longrightarrow> fetch u request_headers = Inr r \<Longrightarrow> ok r \<Longrightarrow> content_type r = Some ct \<Longrightarrow>
   prefix ''image/'' ct \<Longrightarrow> array_buffer r = Inl e \<Longrightarrow>
   try_body valid_url fetch u = (Inl e, [HttpGet u request_headers, ReadBody])"
  by (simp add: try_body_image read_image_def)

lemma flow_on_string:
  "generatePoemFromImage render m (JObj [(''photoDataUri'', JStr s)]) =
     (case m (render prompt_template s) of
        Inl e \<Rightarrow> (Inl (ModelError e), [InvokeModel (render prompt_template s)])
      | Inr output \<Rightarrow>
          (if GeneratePoemFromImageOutputSchema output
           then (Inr output, [InvokeModel (render prompt_template s)])
           else (Inl OutputSchemaError, [InvokeModel (render prompt_template s)])))"
  by (simp add: generatePoemFromImage_def generatePoemFromImageFlow_def generatePoemPrompt_def
        GeneratePoemFromImageInputSchema_def Let_def split: sum.splits)

lemma render_stub_template:
  "render_stub prompt_template s = [TextPart prompt_text, MediaPart (first_piece s) (second_piece s)]"
  by (simp add: render_stub_def prompt_template_def)

section \<open>Properties\<close>

text \<open>
  C1. The input schema asks for a string and nothing more: for every string, shaped as a
  data URI or not, the input passes, the prompt is rendered from it and the model is
  called with the rendered prompt. An input that the schema refuses (no
  \<^verbatim>\<open>photoDataUri\<close>, or one that is not a string) fails before the model is called.
\<close>

theorem input_schema_accepts_every_string:
  "GeneratePoemFromImageInputSchema (JObj [(''photoDataUri'', JStr s)])
   \<and> snd (generatePoemFromImage render m (JObj [(''photoDataUri'', JStr s)]))
       = [InvokeModel (render prompt_template s)]
   \<and> fst (generatePoemFromImage render m (JObj [(''photoDataUri'', JStr s)]))
       \<noteq> Inl InputSchemaError
   \<and> (\<not> GeneratePoemFromImageInputSchema v \<longrightarrow>
        generatePoemFromImage render m v = (Inl InputSchemaError, []))"
  by (simp add: flow_on_string split: sum.splits)
     (simp add: generatePoemFromImage_def generatePoemFromImageFlow_def
        GeneratePoemFromImageInputSchema_def)

theorem input_schema_accepts_every_string_witness:
  "snd (generatePoemFromImage render_stub (model_stub (JObj [(''poem'', JStr ''A rose'')]))
          (JObj [(''photoDataUri'', JStr ''hello world'')]))
     = [InvokeModel [TextPart prompt_text, MediaPart ''hello'' (Some ''world'')]]
   \<and> \<not> GeneratePoemFromImageInputSchema (JObj [(''photoDataUri'', JNum 7)])
   \<and> generatePoemFromImage render_stub (model_stub (JObj [(''poem'', JStr ''A rose'')]))
          (JObj [(''photoDataUri'', JNum 7)]) = (Inl InputSchemaError, [])"
  using input_schema_accepts_every_string [of "''hello world''" render_stub
      "model_stub (JObj [(''poem'', JStr ''A rose'')])" "JObj [(''photoDataUri'', JNum 7)]"]
  by (simp add: GeneratePoemFromImageInputSchema_def render_stub_template first_piece_def
        second_piece_def)

text \<open>
  As C1 is written, a string that is no data URI fails in the schema before the model is
  called. The string \<open>hello\<close> passes, the model is called with the prompt rendered from it,
  and its poem is returned.
\<close>

theorem malformed_uri_reaches_model_counterexample:
  "\<not> spec_well_formed_data_uri ''hello''
   \<and> generatePoemFromImage render_stub (model_stub (JObj [(''poem'', JStr ''A rose'')]))
        (JObj [(''photoDataUri'', JStr ''hello'')])
       = (Inr (JObj [(''poem'', JStr ''A rose'')]),
          [InvokeModel [TextPart prompt_text, MediaPart ''hello'' None]])"
  by (simp add: flow_on_string model_stub_def GeneratePoemFromImageOutputSchema_def
        spec_well_formed_data_uri_def render_stub_template first_piece_def second_piece_def)

text \<open>
  C2. When the model hands back \<^verbatim>\<open>{poem: p}\<close> for a string \<open>p\<close>, empty or not, the flow returns
  that output; when the output has no \<^verbatim>\<open>poem\<close>, the flow fails in the output schema. This
  holds for every input string and every rendering of the prompt.
\<close>

theorem poem_returned_as_is_or_schema_error:
  "(m (render prompt_template s) = Inr (JObj [(''poem'', JStr p)]) \<longrightarrow>
      generatePoemFromImage render m (JObj [(''photoDataUri'', JStr s)])
        = (Inr (JObj [(''poem'', JStr p)]), [InvokeModel (render prompt_template s)]))
   \<and> (m (render prompt_template s) = Inr output \<and> get_prop output ''poem'' = None \<longrightarrow>
      generatePoemFromImage render m (JObj [(''photoDataUri'', JStr s)])
        = (Inl OutputSchemaError, [InvokeModel (render prompt_template s)]))"
  by (simp add: flow_on_string GeneratePoemFromImageOutputSchema_def)

theorem poem_returned_as_is_or_schema_error_witness:
  "model_stub (JObj [(''poem'', JStr ''A rose'')])
       (render_stub prompt_template ''data:image/png;base64,iVBORw=='')
     = Inr (JObj [(''poem'', JStr ''A rose'')])
   \<and> generatePoemFromImage render_stub (model_stub (JObj [(''poem'', JStr ''A rose'')]))
        (JObj [(''photoDataUri'', JStr ''data:image/png;base64,iVBORw=='')])
       = (Inr (JObj [(''poem'', JStr ''A rose'')]),
          [InvokeModel [TextPart prompt_text, MediaPart ''data:image/png;base64,iVBORw=='' None]])
   \<and> model_stub (JObj []) (render_stub prompt_template ''data:image/png;base64,iVBORw=='')
     = Inr (JObj [])
   \<and> get_prop (JObj []) ''poem'' = None
   \<and> generatePoemFromImage render_stub (model_stub (JObj []))
        (JObj [(''photoDataUri'', JStr ''data:image/png;base64,iVBORw=='')])
       = (Inl OutputSchemaError,
          [InvokeModel [TextPart prompt_text, MediaPart ''data:image/png;base64,iVBORw=='' None]])"
  using poem_returned_as_is_or_schema_error [of "model_stub (JObj [(''poem'', JStr ''A rose'')])"
      render_stub "''data:image/png;base64,iVBORw==''" "''A rose''" "JObj []"]
    poem_returned_as_is_or_schema_error [of "model_stub (JObj [])"
      render_stub "''data:image/png;base64,iVBORw==''" "''A rose''" "JObj []"]
  by (simp add: model_stub_def render_stub_template first_piece_def second_piece_def)

text \<open>
  As C2 is written, an empty poem is a failure. For a well-formed data URI and a model that
  hands back \<^verbatim>\<open>{poem: ""}\<close> the flow returns that output.
\<close>

theorem empty_poem_returned_counterexample:
  "spec_well_formed_data_uri ''data:image/png;base64,iVBORw==''
   \<and> generatePoemFromImage render_stub (model_stub (JObj [(''poem'', JStr '''')]))
        (JObj [(''photoDataUri'', JStr ''data:image/png;base64,iVBORw=='')])
       = (Inr (JObj [(''poem'', JStr '''')]),
          [InvokeModel [TextPart prompt_text, MediaPart ''data:image/png;base64,iVBORw=='' None]])"
  by (simp add: flow_on_string model_stub_def GeneratePoemFromImageOutputSchema_def
        spec_well_formed_data_uri_def sublist_code(3) render_stub_template first_piece_def
        second_piece_def)

text \<open>
  C3. Whenever the action reports success, the data URL is \<open>data:\<close>, the value of the
  response's \<^verbatim>\<open>content-type\<close> header, \<open>;base64,\<close> and the Base64 encoding of the body
  that was read, and decoding that last part gives back the bytes of the body.
\<close>

theorem successful_conversion_data_url:
  assumes "success (fst (convertImageUrlToDataUrlAction valid_url fetch imageUrl))"
  shows "\<exists>r ct bs b64.
           fetch imageUrl request_headers = Inr r \<and> content_type r = Some ct \<and>
           array_buffer r = Inr bs \<and>
           dataUrl (fst (convertImageUrlToDataUrlAction valid_url fetch imageUrl))
             = Some (''data:'' @ ct @ '';base64,'' @ b64) \<and>
           b64 = base64_encode bs \<and> base64_decode b64 = Some bs"
proof (cases "try_body valid_url fetch imageUrl")
  case (Pair outcome effs)
  show ?thesis
  proof (cases outcome)
    case (Inl e)
    with Pair assms show ?thesis
      by (simp add: action_of_thrown catch_block_not_success)
  next
    case (Inr res)
    with Pair have tb: "try_body valid_url fetch imageUrl = (Inr res, effs)" by simp
    with assms have "success res" by (simp add: action_of_result)
    from try_body_success[OF tb this] tb show ?thesis
      by (auto simp: action_of_result base64_decode_encode)
  qed
qed

theorem successful_conversion_data_url_witness:
  "success (fst (convertImageUrlToDataUrlAction url_check_stub
       (respond_with \<lparr>status = 200, statusText = ''OK'', json_body = Inl (JsError ''not JSON''),
           content_type = Some ''image/png'', array_buffer = Inr [137, 80, 78, 71]\<rparr>)
       ''https://example.com/cat.png'')) \<and>
   dataUrl (fst (convertImageUrlToDataUrlAction url_check_stub
       (respond_with \<lparr>status = 200, statusText = ''OK'', json_body = Inl (JsError ''not JSON''),
           content_type = Some ''image/png'', array_buffer = Inr [137, 80, 78, 71]\<rparr>)
       ''https://example.com/cat.png'')) = Some ''data:image/png;base64,iVBORw=='' \<and>
   base64_decode ''iVBORw=='' = Some [137, 80, 78, 71]"
proof -
  let ?r = "\<lparr>status = 200, statusText = ''OK'', json_body = Inl (JsError ''not JSON''),
           content_type = Some ''image/png'', array_buffer = Inr [137, 80, 78, 71 :: byte]\<rparr>"
  let ?res = "fst (convertImageUrlToDataUrlAction url_check_stub (respond_with ?r)
                 ''https://example.com/cat.png'')"
  have enc: "base64_encode [137, 80, 78, 71] = ''iVBORw==''"
    by (simp add: sextet_chars_def group_of_bytes_def b64char_def b64chars_def)
  have tb: "try_body url_check_stub (respond_with ?r) ''https://example.com/cat.png''
        = read_image ''https://example.com/cat.png'' ''image/png'' ?r"
    by (rule try_body_image) (simp_all add: url_check_stub_def respond_with_def ok_def)
  have h: "success ?res"
    by (simp add: convertImageUrlToDataUrlAction_def tb read_image_def MAX_REMOTE_SIZE_def)
  from successful_conversion_data_url[OF h]
  obtain r ct bs b64 where
    r: "respond_with ?r ''https://example.com/cat.png'' request_headers = Inr r" and
    ct: "content_type r = Some ct" and bs: "array_buffer r = Inr bs" and
    url: "dataUrl ?res = Some (''data:'' @ ct @ '';base64,'' @ b64)" and
    b64: "b64 = base64_encode bs" and dec: "base64_decode b64 = Some bs"
    by blast
  from r have "r = ?r" by (simp add: respond_with_def)
  with ct bs have "ct = ''image/png''" "bs = [137, 80, 78, 71]" by simp_all
  with b64 enc have "b64 = ''iVBORw==''" by simp
  with url dec \<open>ct = ''image/png''\<close> \<open>bs = [137, 80, 78, 71]\<close>
  have "dataUrl ?res = Some ''data:image/png;base64,iVBORw=='' \<and>
      base64_decode ''iVBORw=='' = Some [137, 80, 78, 71]"
    by simp
  with h show ?thesis by simp
qed

text \<open>
  C4. A string that the URL check rejects is answered with \<open>success = false\<close> and the
  message \<open>Invalid URL format.\<close>, and no HTTP request is made.
\<close>

theorem invalid_url_rejected_without_request:
  "\<not> valid_url imageUrl \<Longrightarrow>
   convertImageUrlToDataUrlAction valid_url fetch imageUrl =
     (\<lparr>success = False, dataUrl = None, error = Some (JStr ''Invalid URL format.'')\<rparr>, [])"
  by (simp add: action_of_result [OF convert_invalid] failure_def)

theorem invalid_url_rejected_without_request_witness:
  "\<not> url_check_stub ''not a url'' \<and>
   convertImageUrlToDataUrlAction url_check_stub (fail_with JsOther) ''not a url'' =
     (\<lparr>success = False, dataUrl = None, error = Some (JStr ''Invalid URL format.'')\<rparr>, [])"
  using invalid_url_rejected_without_request
          [of url_check_stub "''not a url''" "fail_with JsOther"]
  by (simp add: url_check_stub_def)

text \<open>
  C5. A selected file larger than 5 MiB is refused with the size message whatever its
  declared type: the size issue comes first in the list of the schema, and the change
  handler shows the first. The three constraints have three different messages: a missing
  value gives the message of the first, a file within the size whose type is outside the
  list gives the message of the third.
\<close>

theorem oversize_file_rejected_whatever_its_type:
  assumes "file_size f > 5 * 1024 * 1024"
    and "file_size g \<le> 5 * 1024 * 1024" and "file_type g \<notin> set ACCEPTED_IMAGE_TYPES"
  shows "handleFileChange (Some (f # rest)) st =
           Inr (st\<lparr>imageFileError := Some ''Max file size is 5MB.'', imagePreview := None\<rparr>)
       \<and> (\<exists>later. imageFile_safeParse (Some (f # rest)) = Inr (size_message # later))
       \<and> handleFileChange (Some (g # rest)) st =
           Inr (st\<lparr>imageFileError := Some type_message, imagePreview := None\<rparr>)
       \<and> (\<exists>later. imageFile_safeParse None = Inr (required_message # later))
       \<and> distinct [required_message, size_message, type_message]"
proof -
  from assms(1) have f: "imageFile_safeParse (Some (f # rest)) =
      Inr (size_message # issue (file_type f \<in> set ACCEPTED_IMAGE_TYPES) type_message)"
    by (simp add: safeParse_first_file issue_def MAX_FILE_SIZE_def)
  from assms(2,3) have g: "imageFile_safeParse (Some (g # rest)) = Inr [type_message]"
    by (simp add: safeParse_first_file issue_def MAX_FILE_SIZE_def)
  have "handleFileChange (Some (f # rest)) st =
           Inr (st\<lparr>imageFileError := Some ''Max file size is 5MB.'', imagePreview := None\<rparr>)"
    by (simp add: handleFileChange_def f size_message_def)
  moreover have "handleFileChange (Some (g # rest)) st =
           Inr (st\<lparr>imageFileError := Some type_message, imagePreview := None\<rparr>)"
    by (simp add: handleFileChange_def g)
  ultimately show ?thesis
    using f messages_distinct by (simp add: safeParse_absent)
qed

theorem oversize_file_rejected_whatever_its_type_witness:
  "file_size \<lparr>file_size = 6291456, file_type = ''image/png'', file_bytes = []\<rparr> > 5 * 1024 * 1024
   \<and> file_size \<lparr>file_size = 2048, file_type = ''image/bmp'', file_bytes = []\<rparr> \<le> 5 * 1024 * 1024
   \<and> file_type \<lparr>file_size = 2048, file_type = ''image/bmp'', file_bytes = []\<rparr>
        \<notin> set ACCEPTED_IMAGE_TYPES
   \<and> handleFileChange (Some [\<lparr>file_size = 6291456, file_type = ''image/png'', file_bytes = []\<rparr>])
        \<lparr>imageFileError = None, imagePreview = Some ''data:image/gif;base64,AQID''\<rparr>
       = Inr \<lparr>imageFileError = Some ''Max file size is 5MB.'', imagePreview = None\<rparr>
   \<and> handleFileChange (Some [\<lparr>file_size = 2048, file_type = ''image/bmp'', file_bytes = []\<rparr>])
        \<lparr>imageFileError = None, imagePreview = Some ''data:image/gif;base64,AQID''\<rparr>
       = Inr \<lparr>imageFileError = Some ''.jpg, .jpeg, .png, .webp and .gif files are accepted.'',
              imagePreview = None\<rparr>"
  using oversize_file_rejected_whatever_its_type
    [of "\<lparr>file_size = 6291456, file_type = ''image/png'', file_bytes = []\<rparr>"
        "\<lparr>file_size = 2048, file_type = ''image/bmp'', file_bytes = []\<rparr>"
        "[]" "\<lparr>imageFileError = None, imagePreview = Some ''data:image/gif;base64,AQID''\<rparr>"]
  by (simp add: ACCEPTED_IMAGE_TYPES_def type_message_def)

text \<open>
  C6. A response with a successful status whose \<^verbatim>\<open>content-type\<close> header is absent or does
  not start with \<open>image/\<close> is answered with a failure whose message ends with the header as
  observed (\<open>null\<close> for an absent header), and the body is not read.
\<close>

theorem non_image_content_type_named:
  assumes "valid_url imageUrl" and "fetch imageUrl request_headers = Inr r" and "ok r"
    and "content_type r = None \<or> (\<exists>ct. content_type r = Some ct \<and> \<not> prefix ''image/'' ct)"
  shows "convertImageUrlToDataUrlAction valid_url fetch imageUrl =
           (\<lparr>success = False, dataUrl = None,
             error = Some (JStr (''Invalid content type. URL does not point to an image. Found: ''
                                   @ string_of_header (content_type r)))\<rparr>,
            [HttpGet imageUrl request_headers])
         \<and> sublist (string_of_header (content_type r))
              (''Invalid content type. URL does not point to an image. Found: ''
                 @ string_of_header (content_type r))"
proof -
  have "try_body valid_url fetch imageUrl =
          (Inr (content_type_failure (content_type r)), [HttpGet imageUrl request_headers])"
    using assms try_body_no_header[of valid_url imageUrl fetch r]
      try_body_not_image[of valid_url imageUrl fetch r]
    by auto
  moreover have "sublist (string_of_header (content_type r))
              (''Invalid content type. URL does not point to an image. Found: ''
                 @ string_of_header (content_type r))"
    by (rule sublist_append_leftI)
  ultimately show ?thesis
    by (simp add: action_of_result content_type_failure_def failure_def)
qed

theorem non_image_content_type_named_witness:
  "convertImageUrlToDataUrlAction url_check_stub
       (respond_with \<lparr>status = 200, statusText = ''OK'', json_body = Inl (JsError ''not JSON''),
           content_type = Some ''text/html'', array_buffer = Inr [60, 104, 49, 62]\<rparr>)
       ''https://example.com/page'' =
     (\<lparr>success = False, dataUrl = None,
       error = Some (JStr ''Invalid content type. URL does not point to an image. Found: text/html'')\<rparr>,
      [HttpGet ''https://example.com/page'' request_headers])
   \<and> sublist ''text/html'' ''Invalid content type. URL does not point to an image. Found: text/html''"
  using non_image_content_type_named [of url_check_stub "''https://example.com/page''"
      "respond_with \<lparr>status = 200, statusText = ''OK'', json_body = Inl (JsError ''not JSON''),
           content_type = Some ''text/html'', array_buffer = Inr [60, 104, 49, 62]\<rparr>"
      "\<lparr>status = 200, statusText = ''OK'', json_body = Inl (JsError ''not JSON''),
           content_type = Some ''text/html'', array_buffer = Inr [60, 104, 49, 62]\<rparr>"]
  by (simp add: url_check_stub_def respond_with_def ok_def string_of_header_def)

text \<open>
  C7. A response with a successful status and an image content type whose body is longer
  than 10 MiB is answered with the 10MB failure, and the body has been read whole by then:
  the effects are the request and the read of the body.
\<close>

theorem oversize_body_rejected_after_buffering:
  assumes "valid_url imageUrl" and "fetch imageUrl request_headers = Inr r" and "ok r"
    and "content_type r = Some ct" and "prefix ''image/'' ct"
    and "array_buffer r = Inr imageBuffer" and "length imageBuffer > 10 * 1024 * 1024"
  shows "convertImageUrlToDataUrlAction valid_url fetch imageUrl =
           (\<lparr>success = False, dataUrl = None,
             error = Some (JStr ''Image size exceeds 10MB limit.'')\<rparr>,
            [HttpGet imageUrl request_headers, ReadBody])"
proof -
  have "try_body valid_url fetch imageUrl = read_image imageUrl ct r"
    using assms by (simp add: try_body_image)
  moreover have "read_image imageUrl ct r =
      (Inr (failure (JStr ''Image size exceeds 10MB limit.'')),
       [HttpGet imageUrl request_headers, ReadBody])"
    using assms by (auto simp: read_image_def MAX_REMOTE_SIZE_def)
  ultimately show ?thesis
    by (simp add: action_of_result failure_def)
qed

theorem oversize_body_rejected_after_buffering_witness:
  "length (replicate 11534336 (0::byte)) > 10 * 1024 * 1024 \<and>
   convertImageUrlToDataUrlAction url_check_stub
       (respond_with \<lparr>status = 200, statusText = ''OK'', json_body = Inl (JsError ''not JSON''),
           content_type = Some ''image/jpeg'', array_buffer = Inr (replicate 11534336 0)\<rparr>)
       ''https://example.com/big.jpg'' =
     (\<lparr>success = False, dataUrl = None, error = Some (JStr ''Image size exceeds 10MB limit.'')\<rparr>,
      [HttpGet ''https://example.com/big.jpg'' request_headers, ReadBody])"
proof -
  have len: "length (replicate 11534336 (0::byte)) > 10 * 1024 * 1024"
    by simp
  show ?thesis
    using len oversize_body_rejected_after_buffering [of url_check_stub "''https://example.com/big.jpg''"
      "respond_with \<lparr>status = 200, statusText = ''OK'', json_body = Inl (JsError ''not JSON''),
           content_type = Some ''image/jpeg'', array_buffer = Inr (replicate 11534336 0)\<rparr>"
      "\<lparr>status = 200, statusText = ''OK'', json_body = Inl (JsError ''not JSON''),
           content_type = Some ''image/jpeg'', array_buffer = Inr (replicate 11534336 0)\<rparr>"
      "''image/jpeg''" "replicate 11534336 0"]
    by (simp add: url_check_stub_def respond_with_def ok_def)
qed

text \<open>
  C8. A response whose status is not successful is answered with a failure whose message
  is chosen in the order of the specification: the truthy \<^verbatim>\<open>message\<close> of a JSON body, else
  the status text, else the generic message with the status number. For a 404 response
  without such a JSON message, the message contains \<open>404\<close> or the status text, which is then
  not empty.
\<close>

theorem not_ok_message_order:
  assumes "valid_url imageUrl" and "fetch imageUrl request_headers = Inr r" and "\<not> ok r"
  shows "convertImageUrlToDataUrlAction valid_url fetch imageUrl =
           (\<lparr>success = False, dataUrl = None, error = Some (spec_not_ok_message r)\<rparr>,
            [HttpGet imageUrl request_headers, ReadJson])
       \<and> (status r = 404 \<and> spec_json_message r = None \<longrightarrow>
            (\<exists>msg. spec_not_ok_message r = JStr msg \<and>
               (sublist ''404'' msg \<or> (statusText r \<noteq> [] \<and> sublist (statusText r) msg))))"
proof -
  have "convertImageUrlToDataUrlAction valid_url fetch imageUrl =
           (\<lparr>success = False, dataUrl = None, error = Some (spec_not_ok_message r)\<rparr>,
            [HttpGet imageUrl request_headers, ReadJson])"
    using assms
    by (simp add: action_of_result [OF try_body_not_ok] not_ok_refines_spec failure_def)
  moreover have "\<exists>msg. spec_not_ok_message r = JStr msg \<and>
               (sublist ''404'' msg \<or> (statusText r \<noteq> [] \<and> sublist (statusText r) msg))"
    if "status r = 404" "spec_json_message r = None"
    using spec_message_names_status[OF that(2)] that(1) by (simp add: show_nat_404)
  ultimately show ?thesis by blast
qed

theorem not_ok_message_order_witness:
  "\<not> ok \<lparr>status = 404, statusText = ''Not Found'', json_body = Inl (JsError ''not JSON''),
           content_type = Some ''text/html'', array_buffer = Inr []\<rparr>
   \<and> convertImageUrlToDataUrlAction url_check_stub
       (respond_with \<lparr>status = 404, statusText = ''Not Found'', json_body = Inl (JsError ''not JSON''),
           content_type = Some ''text/html'', array_buffer = Inr []\<rparr>)
       ''https://example.com/missing.png'' =
     (\<lparr>success = False, dataUrl = None, error = Some (JStr ''Failed to fetch image: Not Found'')\<rparr>,
      [HttpGet ''https://example.com/missing.png'' request_headers, ReadJson])"
  using not_ok_message_order [of url_check_stub "''https://example.com/missing.png''"
      "respond_with \<lparr>status = 404, statusText = ''Not Found'', json_body = Inl (JsError ''not JSON''),
           content_type = Some ''text/html'', array_buffer = Inr []\<rparr>"
      "\<lparr>status = 404, statusText = ''Not Found'', json_body = Inl (JsError ''not JSON''),
           content_type = Some ''text/html'', array_buffer = Inr []\<rparr>"]
  by (simp add: url_check_stub_def respond_with_def ok_def spec_not_ok_message_def
        spec_json_message_def)

text \<open>
  As C8 is written, every 404 response gets a message with \<open>404\<close> or the status text. A
  404 response with a JSON body \<^verbatim>\<open>{"message": "No such image"}\<close> gets that message, which
  has neither.
\<close>

theorem not_found_json_message_counterexample:
  "status \<lparr>status = 404, statusText = ''Not Found'',
           json_body = Inr (JObj [(''message'', JStr ''No such image'')]),
           content_type = Some ''application/json'', array_buffer = Inr []\<rparr> = 404
   \<and> fst (convertImageUrlToDataUrlAction url_check_stub
       (respond_with \<lparr>status = 404, statusText = ''Not Found'',
           json_body = Inr (JObj [(''message'', JStr ''No such image'')]),
           content_type = Some ''application/json'', array_buffer = Inr []\<rparr>)
       ''https://example.com/missing.png'') =
     \<lparr>success = False, dataUrl = None, error = Some (JStr ''No such image'')\<rparr>
   \<and> \<not> sublist ''404'' ''No such image''
   \<and> \<not> sublist ''Not Found'' ''No such image''"
  by (simp add: convertImageUrlToDataUrlAction_def try_body_def url_check_stub_def
        respond_with_def ok_def not_ok_errorText_def truthy_message_def failure_def
        sublist_code(3))

text \<open>
  C9. What \<^verbatim>\<open>fetch\<close> or the read of the body throws does not leave the action: the outcome
  is a failure with a message. The message is the one of the thrown value, replaced by the
  network message exactly when it contains \<open>fetch\<close>.
\<close>

theorem exceptions_become_failures:
  assumes "valid_url imageUrl"
    and "fetch imageUrl request_headers = Inl e \<or>
         (\<exists>r ct. fetch imageUrl request_headers = Inr r \<and> ok r \<and> content_type r = Some ct \<and>
                  prefix ''image/'' ct \<and> array_buffer r = Inl e)"
  shows "fst (convertImageUrlToDataUrlAction valid_url fetch imageUrl) =
           \<lparr>success = False, dataUrl = None,
            error = Some (JStr (if sublist ''fetch'' (thrown_message e)
                                then ''Network error or invalid URL. Could not fetch the image.''
                                else thrown_message e))\<rparr>"
proof -
  from assms obtain effs where "try_body valid_url fetch imageUrl = (Inl e, effs)"
    using try_body_fetch_throws[of valid_url imageUrl fetch e]
      try_body_read_throws[of valid_url imageUrl fetch _ _ e]
    by blast
  then show ?thesis
    by (simp add: action_of_thrown catch_block_error)
qed

theorem exceptions_become_failures_witness:
  "url_check_stub ''https://nowhere.invalid/a.png''
   \<and> fail_with (JsError ''fetch failed'') ''https://nowhere.invalid/a.png'' request_headers
       = Inl (JsError ''fetch failed'')
   \<and> fst (convertImageUrlToDataUrlAction url_check_stub (fail_with (JsError ''fetch failed''))
            ''https://nowhere.invalid/a.png'') =
       \<lparr>success = False, dataUrl = None,
        error = Some (JStr ''Network error or invalid URL. Could not fetch the image.'')\<rparr>"
  using exceptions_become_failures [of url_check_stub "''https://nowhere.invalid/a.png''"
      "fail_with (JsError ''fetch failed'')" "JsError ''fetch failed''"]
  by (simp add: url_check_stub_def fail_with_def thrown_message_def sublist_code(3))

text \<open>
  As C9 is written, every transport exception is rewritten. A read of the body that is
  cut off throws an error whose message, \<open>terminated\<close>, is handed to the caller as it is.
\<close>

theorem aborted_read_surfaces_raw_counterexample:
  "fst (convertImageUrlToDataUrlAction url_check_stub
       (respond_with \<lparr>status = 200, statusText = ''OK'', json_body = Inl (JsError ''not JSON''),
           content_type = Some ''image/png'', array_buffer = Inl (JsError ''terminated'')\<rparr>)
       ''https://example.com/cat.png'') =
     \<lparr>success = False, dataUrl = None, error = Some (JStr ''terminated'')\<rparr>"
  by (simp add: convertImageUrlToDataUrlAction_def try_body_def read_image_def url_check_stub_def
        respond_with_def ok_def catch_block_def thrown_message_def failure_def sublist_code(3))

text \<open>
  C10. The list of the four accepted types belongs to the file input only. A response whose
  content type starts with \<open>image/\<close> and is outside the list, with a body that is not empty
  and at most 10 MiB, is converted to a data URL with that type, while the file input
  refuses a file of the same type and content.
\<close>

theorem remote_accepts_image_types_outside_the_list:
  assumes "valid_url imageUrl" and "fetch imageUrl request_headers = Inr r" and "ok r"
    and "content_type r = Some ct" and "prefix ''image/'' ct"
    and "ct \<notin> set ACCEPTED_IMAGE_TYPES"
    and "array_buffer r = Inr imageBuffer"
    and "0 < length imageBuffer" and "length imageBuffer \<le> 10 * 1024 * 1024"
  shows "fst (convertImageUrlToDataUrlAction valid_url fetch imageUrl) =
           \<lparr>success = True,
            dataUrl = Some (''data:'' @ ct @ '';base64,'' @ base64_encode imageBuffer),
            error = None\<rparr>
       \<and> (\<exists>message. handleFileChange
              (Some [\<lparr>file_size = length imageBuffer, file_type = ct, file_bytes = imageBuffer\<rparr>]) st
            = Inr (st\<lparr>imageFileError := Some message, imagePreview := None\<rparr>))"
proof -
  have "try_body valid_url fetch imageUrl = read_image imageUrl ct r"
    using assms by (simp add: try_body_image)
  moreover have "read_image imageUrl ct r =
      (Inr \<lparr>success = True,
            dataUrl = Some (''data:'' @ ct @ '';base64,'' @ base64_encode imageBuffer),
            error = None\<rparr>,
       [HttpGet imageUrl request_headers, ReadBody])"
    using assms by (auto simp: read_image_def MAX_REMOTE_SIZE_def)
  ultimately have remote: "fst (convertImageUrlToDataUrlAction valid_url fetch imageUrl) =
           \<lparr>success = True,
            dataUrl = Some (''data:'' @ ct @ '';base64,'' @ base64_encode imageBuffer),
            error = None\<rparr>"
    by (simp add: action_of_result)
  have "\<exists>message later. imageFile_safeParse
          (Some [\<lparr>file_size = length imageBuffer, file_type = ct, file_bytes = imageBuffer\<rparr>])
        = Inr (message # later)"
    using assms(6) by (simp add: safeParse_first_file issue_def)
  then have "\<exists>message. handleFileChange
              (Some [\<lparr>file_size = length imageBuffer, file_type = ct, file_bytes = imageBuffer\<rparr>]) st
            = Inr (st\<lparr>imageFileError := Some message, imagePreview := None\<rparr>)"
    by (auto simp: handleFileChange_def)
  with remote show ?thesis by simp
qed

theorem remote_accepts_image_types_outside_the_list_witness:
  "prefix ''image/'' ''image/svg+xml'' \<and> ''image/svg+xml'' \<notin> set ACCEPTED_IMAGE_TYPES \<and>
   fst (convertImageUrlToDataUrlAction url_check_stub
       (respond_with \<lparr>status = 200, statusText = ''OK'', json_body = Inl (JsError ''not JSON''),
           content_type = Some ''image/svg+xml'', array_buffer = Inr [60, 115, 118, 103, 47, 62]\<rparr>)
       ''https://example.com/logo.svg'') =
     \<lparr>success = True, dataUrl = Some ''data:image/svg+xml;base64,PHN2Zy8+'', error = None\<rparr>"
proof -
  let ?r = "\<lparr>status = 200, statusText = ''OK'', json_body = Inl (JsError ''not JSON''),
           content_type = Some ''image/svg+xml'',
           array_buffer = Inr [60, 115, 118, 103, 47, 62 :: byte]\<rparr>"
  have ty: "prefix ''image/'' ''image/svg+xml''" "''image/svg+xml'' \<notin> set ACCEPTED_IMAGE_TYPES"
    by (simp_all add: ACCEPTED_IMAGE_TYPES_def)
  have "fst (convertImageUrlToDataUrlAction url_check_stub (respond_with ?r)
               ''https://example.com/logo.svg'') =
          \<lparr>success = True,
           dataUrl = Some (''data:'' @ ''image/svg+xml'' @ '';base64,''
                            @ base64_encode [60, 115, 118, 103, 47, 62]),
           error = None\<rparr>"
    using remote_accepts_image_types_outside_the_list
      [of url_check_stub "''https://example.com/logo.svg''" "respond_with ?r" ?r
        "''image/svg+xml''" "[60, 115, 118, 103, 47, 62]"
        "\<lparr>imageFileError = None, imagePreview = None\<rparr>", OF _ _ _ _ ty]
    by (simp add: url_check_stub_def respond_with_def ok_def)
  with ty show ?thesis
    by (simp add: sextet_chars_def group_of_bytes_def b64char_def b64chars_def)
qed

end
